theory Spec2Isabelle
  imports Complex_Main "HOL-Library.Sublist" "HOL-Library.Char_ord" "HOL-Library.List_Lexorder"
    "HOL-Library.Option_ord" "HOL-Library.Product_Lexorder"
begin

section \<open>Python strings\<close>

text \<open>
  Filing texts are modelled as \<^typ>\<open>string\<close>, one \<^typ>\<open>char\<close> per character of the
  Python \<open>str\<close>; EDGAR headers are ASCII. An exception of the source is a value of
  \<open>error\<close> on the left of a sum.
\<close>

datatype error = IndexError | ValueError string | TypeError | KeyError | InvalidIndexError
  | ZeroDivisionError

text \<open>\<open>str.find\<close>: the lowest offset at which \<open>sub\<close> occurs, \<open>-1\<close> when it does not.\<close>

fun index_of :: "string \<Rightarrow> string \<Rightarrow> nat option" where
  "index_of sub [] = (if sub = [] then Some 0 else None)"
| "index_of sub (c # cs) =
     (if prefix sub (c # cs) then Some 0 else map_option Suc (index_of sub cs))"

definition py_find :: "string \<Rightarrow> string \<Rightarrow> int" where
  "py_find s sub = (case index_of sub s of None \<Rightarrow> -1 | Some i \<Rightarrow> int i)"

text \<open>
  Slices \<open>s[a:b]\<close>, \<open>s[a:]\<close> and \<open>s[:b]\<close>: a negative bound counts from the end, and
  every bound is clamped to the string.
\<close>

definition py_bound :: "nat \<Rightarrow> int \<Rightarrow> nat" where
  "py_bound n i = (if i < 0 then nat (int n + i) else min n (nat i))"

definition slice :: "'a list \<Rightarrow> int \<Rightarrow> int \<Rightarrow> 'a list" where
  "slice s a b = take (py_bound (length s) b - py_bound (length s) a) (drop (py_bound (length s) a) s)"

definition slice_from :: "'a list \<Rightarrow> int \<Rightarrow> 'a list" where
  "slice_from s a = drop (py_bound (length s) a) s"


text \<open>
  \<open>str.split(sep)\<close> for a non-empty separator: the pieces between the leftmost,
  non-overlapping occurrences of \<open>sep\<close>. \<open>acc\<close> is the piece being read.
\<close>

fun split_acc :: "string \<Rightarrow> string \<Rightarrow> string \<Rightarrow> string list" where
  "split_acc sep acc [] = [acc]"
| "split_acc sep acc (c # cs) =
     (if prefix sep (c # cs) then acc # split_acc sep [] (drop (length sep - 1) cs)
      else split_acc sep (acc @ [c]) cs)"

definition py_split :: "string \<Rightarrow> string \<Rightarrow> string list" where
  "py_split s sep = split_acc sep [] s"

text \<open>\<open>str.replace(old, new)\<close> for a non-empty \<open>old\<close>: leftmost occurrences, not overlapping.\<close>

fun py_replace :: "string \<Rightarrow> string \<Rightarrow> string \<Rightarrow> string" where
  "py_replace old new [] = []"
| "py_replace old new (c # cs) =
     (if prefix old (c # cs) then new @ py_replace old new (drop (length old - 1) cs)
      else c # py_replace old new cs)"


text \<open>
  Character classes. \<open>is_space\<close> is \<open>str.isspace\<close> on the code points below 256;
  \<open>is_digit\<close>, \<open>is_upper\<close> and \<open>is_lower\<close> are the ranges \<open>[0-9]\<close>, \<open>[A-Z]\<close> and
  \<open>[a-z]\<close> of the patterns. Case mapping is modelled on ASCII letters.
\<close>

definition TAB :: char where "TAB = CHR 0x09"
definition NL :: char where "NL = CHR 0x0A"

definition is_space :: "char \<Rightarrow> bool" where
  "is_space c = (c \<in> set [CHR 0x09, CHR 0x0A, CHR 0x0B, CHR 0x0C, CHR 0x0D, CHR 0x1C, CHR 0x1D,
                            CHR 0x1E, CHR 0x1F, CHR 0x20, CHR 0x85, CHR 0xA0])"

definition is_digit :: "char \<Rightarrow> bool" where
  "is_digit c = (CHR ''0'' \<le> c \<and> c \<le> CHR ''9'')"

definition is_upper :: "char \<Rightarrow> bool" where
  "is_upper c = (CHR ''A'' \<le> c \<and> c \<le> CHR ''Z'')"

definition is_lower :: "char \<Rightarrow> bool" where
  "is_lower c = (CHR ''a'' \<le> c \<and> c \<le> CHR ''z'')"



definition strip :: "string \<Rightarrow> string" where
  "strip s = rev (dropWhile is_space (rev (dropWhile is_space s)))"






section \<open>Regular expressions of the filing parser\<close>

text \<open>
  \<open>re.findall(p, s)\<close> scans \<open>s\<close> from the left; where \<open>p\<close> matches it keeps the
  captured groups and goes on after the match, elsewhere it moves one character on.
  A pattern is given by its matcher at the head of the remaining text, which returns the
  groups and the length of the match. No pattern of the source matches the empty string.
\<close>

fun findall :: "(string \<Rightarrow> ('g \<times> nat) option) \<Rightarrow> string \<Rightarrow> 'g list" where
  "findall m [] = []"
| "findall m (c # cs) =
     (case m (c # cs) of
        Some (g, n) \<Rightarrow> g # findall m (drop (n - 1) cs)
      | None \<Rightarrow> findall m cs)"

text \<open>\<open>matches[0]\<close>: the first match, an IndexError when there is none.\<close>

definition first_match :: "'g list \<Rightarrow> error + 'g" where
  "first_match matches = (if matches = [] then Inl IndexError else Inr (hd matches))"









section \<open>SECFiling: the header splitter\<close>

definition filer_marker :: "string \<Rightarrow> string" where
  "filer_marker header = (if py_find header ''FILER:'' = -1 then ''FILED BY:'' else ''FILER:'')"

definition filer_section_start :: "string \<Rightarrow> int" where
  "filer_section_start header =
     (if py_find header ''FILER:'' = -1 then py_find header ''FILED BY:''
      else py_find header ''FILER:'')"

definition subject_section_start :: "string \<Rightarrow> int" where
  "subject_section_start header = py_find header ''SUBJECT COMPANY:''"

text \<open>Lines 44 to 49 of \<open>_split_header\<close>: the two sections before the filer one is split.\<close>

definition header_sections :: "string \<Rightarrow> string \<times> string" where
  "header_sections header =
     (if subject_section_start header > filer_section_start header
      then (slice_from header (subject_section_start header),
            slice header (filer_section_start header) (subject_section_start header))
      else (slice header (subject_section_start header) (filer_section_start header),
            slice_from header (filer_section_start header)))"

text \<open>Lines 51 to 55: the filer section is cut at every filer marker, the first piece dropped.\<close>

definition split_header :: "string \<Rightarrow> string \<times> string list" where
  "split_header header =
     (case header_sections header of (subject_section, filer_section) \<Rightarrow>
        if py_find header ''FILER:'' = -1
        then (subject_section, drop 1 (py_split filer_section ''FILED BY:''))
        else (subject_section, drop 1 (py_split filer_section ''FILER:'')))"

section \<open>SECFiling: field extraction and construction\<close>

text \<open>The dictionary built for a filer: name, central index key, classification.\<close>

record entity =
  name :: string
  cik :: int
  sic_name :: "string option"
  sic_code :: "int option"












record sec_filing =
  file_text :: string
  header :: string
  document :: string
  subject_information :: string
  filer_information :: "string list"
  filer :: "entity list"
  form_type :: "string \<times> bool"
  filing_date :: string
  is_html :: bool




section \<open>Filing13D: the subject company and its identifier\<close>


fun py_join :: "string \<Rightarrow> string list \<Rightarrow> string" where
  "py_join sep [] = []"
| "py_join sep [x] = x"
| "py_join sep (x # y # ys) = x @ sep @ py_join sep (y # ys)"


text \<open>
  \<open>([0-9A-Z]{4}[0-9A-Za-z]{2}[- ]*[0-9]{2}[- ]*[0-9])\<close>. Each \<open>[- ]*\<close> takes the whole
  run of separators: what must follow is a digit, which is no separator, so that giving
  a separator back never helps.
\<close>

definition is_sep :: "char \<Rightarrow> bool" where
  "is_sep c = (c = CHR ''-'' \<or> c = CHR '' '')"

definition cusip_pattern :: "string \<Rightarrow> (string \<times> nat) option" where
  "cusip_pattern s =
     (let issuer = take 6 s;
          sep1 = takeWhile is_sep (drop 6 s);
          rest1 = dropWhile is_sep (drop 6 s);
          issue = take 2 rest1;
          sep2 = takeWhile is_sep (drop 2 rest1);
          rest2 = dropWhile is_sep (drop 2 rest1);
          chk = take 1 rest2
      in if length issuer = 6
            \<and> list_all (\<lambda>c. is_digit c \<or> is_upper c) (take 4 issuer)
            \<and> list_all (\<lambda>c. is_digit c \<or> is_upper c \<or> is_lower c) (drop 4 issuer)
            \<and> length issue = 2 \<and> list_all is_digit issue
            \<and> length chk = 1 \<and> list_all is_digit chk
         then Some (issuer @ sep1 @ issue @ sep2 @ chk,
                    length (issuer @ sep1 @ issue @ sep2 @ chk))
         else None)"

text \<open>
  The shape the pattern asks of an identifier once its separators are gone: four
  characters of \<open>[0-9A-Z]\<close>, two of \<open>[0-9A-Za-z]\<close>, three digits.
\<close>

definition alnum :: "char \<Rightarrow> bool" where
  "alnum c = (is_digit c \<or> is_upper c \<or> is_lower c)"

definition identifier_shape :: "string \<Rightarrow> bool" where
  "identifier_shape c =
     (length c = 9 \<and> list_all (\<lambda>x. is_digit x \<or> is_upper x) (take 4 c)
      \<and> list_all alnum (take 2 (drop 4 c)) \<and> list_all is_digit (drop 6 c))"

text \<open>\<open>max(cusips, key=len)\<close>: the first of the longest items; a ValueError on no item.\<close>

fun max_len_from :: "string \<Rightarrow> string list \<Rightarrow> string" where
  "max_len_from best [] = best"
| "max_len_from best (x # xs) = max_len_from (if length best < length x then x else best) xs"

definition max_by_len :: "string list \<Rightarrow> error + string" where
  "max_by_len xs =
     (case xs of
        [] \<Rightarrow> Inl (ValueError ''max() arg is an empty sequence'')
      | x # rest \<Rightarrow> Inr (max_len_from x rest))"

text \<open>Lines 184 to 190 of \<open>_parse_cusip\<close>, on the flattened text of the document.\<close>

definition clean_cusip :: "string \<Rightarrow> string" where
  "clean_cusip item = py_replace ''-'' [] (py_replace '' '' [] (strip item))"

definition cusip_candidates :: "string \<Rightarrow> string list" where
  "cusip_candidates document_flat = map clean_cusip (findall cusip_pattern document_flat)"

definition parse_cusip_flat :: "string \<Rightarrow> error + string" where
  "parse_cusip_flat document_flat = max_by_len (cusip_candidates document_flat)"





section \<open>YahooReader.historical_data\<close>

text \<open>
  The part of \<open>historical_data\<close> after the payload is decoded (lines 298 to 353). A data
  frame is the list of its rows, each with its index label; a cell that is NaN or null
  is \<open>None\<close>. The numbers of the payload are reals. The dictionary of metadata is left
  out.
\<close>

type_synonym 'a frame = "(int \<times> 'a) list"

record bar =
  open_price :: "real option"
  high :: "real option"
  low :: "real option"
  close :: "real option"
  adj_close :: "real option"
  volume :: "real option"

record request =
  frequency :: string
  returns :: bool
  timestamps :: bool
  rounded :: bool

record chart =
  gmtoffset :: int
  bars :: "bar frame"
  dividend_events :: "real frame"
  split_events :: "real frame"

text \<open>The table with the dividends joined (line 330), then with the splits (line 341).\<close>

record priced =
  idx :: int
  cols :: bar
  dividends :: "real option"

record row = priced +
  splits :: "real option"

text \<open>
  What the accessor takes from pandas and numpy, as parameters: rounding to two places;
  what \<open>pd.concat\<close> makes of two frames one of which repeats a label, where the source
  does not settle it (see \<open>concat_dividends\<close>); and whether the two return columns of
  lines 351 to 353 are computed or raise. The return columns are floating-point columns
  that add no row and change no other column: a table is given without them.
\<close>

record library =
  rounding :: "real \<Rightarrow> real"
  realign_dividends :: "bar frame \<Rightarrow> real frame \<Rightarrow> error + priced list"
  realign_splits :: "priced list \<Rightarrow> real frame \<Rightarrow> error + row list"
  return_columns :: "row list \<Rightarrow> error option"

definition nan_bar :: bar where
  "nan_bar = \<lparr>open_price = None, high = None, low = None, close = None, adj_close = None,
              volume = None\<rparr>"

definition round_bar :: "(real \<Rightarrow> real) \<Rightarrow> bar \<Rightarrow> bar" where
  "round_bar round2 b =
     \<lparr>open_price = map_option round2 (open_price b), high = map_option round2 (high b),
      low = map_option round2 (low b), close = map_option round2 (close b),
      adj_close = map_option round2 (adj_close b), volume = volume b\<rparr>"

definition daily_or_longer :: "string \<Rightarrow> bool" where
  "daily_or_longer f = (f \<in> set [''1d'', ''1wk'', ''1mo'', ''3mo''])"

definition weekly_or_longer :: "string \<Rightarrow> bool" where
  "weekly_or_longer f = (f \<in> set [''1wk'', ''1mo'', ''3mo''])"

text \<open>
  Lines 312 to 324. A date is the number of its day, \<open>date(1970,1,1) + timedelta(seconds)\<close>
  keeping whole days only; a datetime is its number of seconds, which \<open>tz_localize\<close>
  leaves as it is.
\<close>

definition convert_index :: "request \<Rightarrow> int \<Rightarrow> int \<Rightarrow> int" where
  "convert_index req tz_offset ts =
     (if \<not> timestamps req \<and> daily_or_longer (frequency req)
      then (ts + tz_offset) div 86400 else ts)"

definition price_frame :: "library \<Rightarrow> request \<Rightarrow> chart \<Rightarrow> bar frame" where
  "price_frame lib req c =
     map (\<lambda>(ts, b). (convert_index req (gmtoffset c) ts,
                      if rounded req then round_bar (rounding lib) b else b)) (bars c)"

definition event_frame :: "request \<Rightarrow> chart \<Rightarrow> real frame \<Rightarrow> real frame" where
  "event_frame req c events = map (\<lambda>(ts, v). (convert_index req (gmtoffset c) ts, v)) events"

text \<open>
  Lines 326 and 327. \<open>prices.index[-1]\<close> and \<open>prices.index[-2]\<close> are read whatever the
  length of the frame is.
\<close>

definition drop_trailing_duplicate :: "'a frame \<Rightarrow> error + 'a frame" where
  "drop_trailing_duplicate prices =
     (if length prices < 2 then Inl IndexError
      else if fst (prices ! (length prices - 1)) = fst (prices ! (length prices - 2))
           then Inr (butlast prices)
           else Inr prices)"

text \<open>
  \<open>pd.concat([a, b], axis=1)\<close> and \<open>sort_index()\<close>. When no label is repeated in
  either frame, the table has one row for each label of either frame, in ascending order
  of the labels, a frame without the label giving NaN cells. When a label is repeated,
  the result is pandas' and depends on the types of the two indexes. With integer labels
  (\<open>timestamps=True\<close>) in ascending order and an event frame that is empty, pandas keeps
  the rows of the other frame as they are, the repeated ones included. Any other pair
  with a repeated label is left to the parameter \<open>realign\<close>.
\<close>

definition labels_union :: "int list \<Rightarrow> int list \<Rightarrow> int list" where
  "labels_union a b = sort (remdups (a @ b))"

definition concat_dividends ::
    "(bar frame \<Rightarrow> real frame \<Rightarrow> error + priced list) \<Rightarrow> bool \<Rightarrow> bar frame \<Rightarrow> real frame
      \<Rightarrow> error + priced list" where
  "concat_dividends realign ints prices df_div =
     (if distinct (map fst prices) \<and> distinct (map fst df_div)
      then Inr (map (\<lambda>i. \<lparr>idx = i,
                          cols = (case map_of prices i of None \<Rightarrow> nan_bar | Some b \<Rightarrow> b),
                          dividends = map_of df_div i\<rparr>)
                    (labels_union (map fst prices) (map fst df_div)))
      else if ints \<and> df_div = [] \<and> sorted (map fst prices)
      then Inr (map (\<lambda>(i, b). \<lparr>idx = i, cols = b, dividends = None\<rparr>) prices)
      else realign prices df_div)"

definition concat_splits ::
    "(priced list \<Rightarrow> real frame \<Rightarrow> error + row list) \<Rightarrow> bool \<Rightarrow> priced list \<Rightarrow> real frame
      \<Rightarrow> error + row list" where
  "concat_splits realign ints df df_splits =
     (if distinct (map idx df) \<and> distinct (map fst df_splits)
      then Inr (map (\<lambda>i. case find (\<lambda>r. idx r = i) df of
                            None \<Rightarrow> \<lparr>idx = i, cols = nan_bar, dividends = None,
                                     splits = map_of df_splits i\<rparr>
                          | Some r \<Rightarrow> \<lparr>idx = i, cols = cols r, dividends = dividends r,
                                       splits = map_of df_splits i\<rparr>)
                    (labels_union (map idx df) (map fst df_splits)))
      else if ints \<and> df_splits = [] \<and> sorted (map idx df)
      then Inr (map (\<lambda>r. \<lparr>idx = idx r, cols = cols r, dividends = dividends r,
                           splits = None\<rparr>) df)
      else realign df df_splits)"

text \<open>
  The loops of lines 335 to 337 and 346 to 348. \<open>copy\<close> is the copy of the event column
  the conditions read, \<open>closes\<close> the close column, \<open>col\<close> the event column of the frame,
  which the loop writes and reads.
\<close>

definition carry :: "real option list \<Rightarrow> real option list \<Rightarrow> real option list \<Rightarrow> nat
    \<Rightarrow> real option list" where
  "carry copy closes col i =
     (if copy ! i \<noteq> None \<and> copy ! (i + 1) = None \<and> closes ! i = None
      then col[i + 1 := col ! i] else col)"

definition forward_fill :: "real option list \<Rightarrow> real option list \<Rightarrow> real option list" where
  "forward_fill events closes = foldl (carry events closes) events [0..<length events - 1]"

definition fill_dividends :: "priced list \<Rightarrow> priced list" where
  "fill_dividends df =
     map (\<lambda>(r, d). r\<lparr>dividends := d\<rparr>)
       (zip df (forward_fill (map dividends df) (map (\<lambda>r. close (cols r)) df)))"

definition fill_splits :: "row list \<Rightarrow> row list" where
  "fill_splits df =
     map (\<lambda>(r, s). r\<lparr>splits := s\<rparr>)
       (zip df (forward_fill (map splits df) (map (\<lambda>r. close (cols r)) df)))"

text \<open>\<open>df[df["close"].notna()]\<close>\<close>

definition with_close :: "('a priced_scheme) list \<Rightarrow> ('a priced_scheme) list" where
  "with_close df = filter (\<lambda>r. close (cols r) \<noteq> None) df"

text \<open>Lines 330 to 338, and lines 341 to 349.\<close>

definition merge_dividends ::
    "library \<Rightarrow> request \<Rightarrow> bar frame \<Rightarrow> real frame \<Rightarrow> error + priced list" where
  "merge_dividends lib req prices df_div =
     (case concat_dividends (realign_dividends lib) (timestamps req) prices df_div of
        Inl e \<Rightarrow> Inl e
      | Inr df \<Rightarrow>
          Inr (if weekly_or_longer (frequency req) then with_close (fill_dividends df) else df))"

definition merge_splits ::
    "library \<Rightarrow> request \<Rightarrow> priced list \<Rightarrow> real frame \<Rightarrow> error + row list" where
  "merge_splits lib req df df_splits =
     (case concat_splits (realign_splits lib) (timestamps req) df df_splits of
        Inl e \<Rightarrow> Inl e
      | Inr df2 \<Rightarrow>
          Inr (if weekly_or_longer (frequency req) then with_close (fill_splits df2) else df2))"

text \<open>The table of line 349, before the return columns.\<close>

definition price_table :: "library \<Rightarrow> request \<Rightarrow> chart \<Rightarrow> error + row list" where
  "price_table lib req c =
     (case drop_trailing_duplicate (price_frame lib req c) of
        Inl e \<Rightarrow> Inl e
      | Inr prices \<Rightarrow>
          (case merge_dividends lib req prices (event_frame req c (dividend_events c)) of
             Inl e \<Rightarrow> Inl e
           | Inr df \<Rightarrow> merge_splits lib req df (event_frame req c (split_events c))))"

definition historical_data :: "library \<Rightarrow> request \<Rightarrow> chart \<Rightarrow> error + row list" where
  "historical_data lib req c =
     (case price_table lib req c of
        Inl e \<Rightarrow> Inl e
      | Inr df \<Rightarrow>
          if returns req
          then (case return_columns lib df of Some e \<Rightarrow> Inl e | None \<Rightarrow> Inr df)
          else Inr df)"

section \<open>TipranksReader\<close>

text \<open>
  The payload of \<open>getData\<close> is a record with the keys the accessors read; a JSON null is
  \<open>None\<close>, a JSON number a real. What the reader takes from outside is a parameter: the
  payload the service sends for a ticker, \<open>round(x, n)\<close> on floats, and the date of a
  timestamp string, as a number that orders as the date does (Unix seconds when
  \<open>timestamps\<close> is set, else the number of the day, which orders as its ISO string).
\<close>

record rating_raw =
  rating_date :: string
  priceTarget :: "real option"
  url :: "string option"
  quote_title :: "string option"

record ranking_raw =
  lRank :: "real option"
  gRecs :: "real option"
  tRecs :: "real option"
  avgReturn :: "real option"
  originalStars :: "real option"

record expert_raw =
  expert_name :: "string option"
  expert_firm :: "string option"
  expertImg :: "string option"
  stockSuccessRate :: "real option"
  stockAverageReturn :: "real option"
  stockTotalRecommendations :: "real option"
  stockGoodRecommendations :: "real option"
  includedInConsensus :: "bool option"
  ratings_raw :: "rating_raw list"
  rankings :: "ranking_raw list"

record insider_raw =
  insider_name_raw :: "string option"
  company_raw :: "string option"
  isOfficer :: "bool option"
  isDirector :: "bool option"
  officerTitle :: "string option"
  amount_raw :: "real option"
  numberOfShares :: "real option"
  rDate :: string
  link :: "string option"
  insiderImg :: "string option"

record holding_raw =
  managerName :: "string option"
  institutionName :: "string option"
  stars_raw :: "real option"
  rank_raw :: "real option"
  totalRankedInstitutions :: "real option"
  value_raw :: "real option"
  change_raw :: "real option"
  percentageOfPortfolio :: "real option"
  imageURL :: "string option"

record payload =
  experts :: "expert_raw list"
  insiders :: "insider_raw list"
  insiderslast3MonthsSum :: "real option"
  institutionalHoldings :: "holding_raw list"

record service =
  get_data :: "string \<Rightarrow> payload"
  round_to :: "nat \<Rightarrow> real \<Rightarrow> real"
  date_number :: "bool \<Rightarrow> string \<Rightarrow> int"

text \<open>
  The reader: its ticker, the payload once it is fetched (\<open>_ratings_data\<close>), and the
  number of requests it has sent.
\<close>

record reader =
  ticker :: string
  ratings_data :: "payload option"
  requests_sent :: nat

definition get_ratings_data :: "service \<Rightarrow> reader \<Rightarrow> payload \<times> reader" where
  "get_ratings_data srv st =
     (case ratings_data st of
        Some d \<Rightarrow> (d, st)
      | None \<Rightarrow>
          (get_data srv (ticker st),
           st\<lparr>ratings_data := Some (get_data srv (ticker st)),
              requests_sent := requests_sent st + 1\<rparr>))"

text \<open>The records the accessors return.\<close>

record rating =
  rated_on :: int
  price_target :: "real option"
  news_url :: "string option"
  news_title :: "string option"

record analyst_ranking =
  rank :: "real option"
  successful_recommendations :: "real option"
  total_recommendations :: "real option"
  percentage_successful_recommendations :: "real option"
  average_rating_return :: "real option"
  stars :: "real option"

record analyst =
  analyst_name :: "string option"
  firm :: "string option"
  image_url :: "string option"
  stock_success_rate :: "real option"
  average_rating_return_stock :: "real option"
  total_recommendations_stock :: "real option"
  positive_recommendations_stock :: "real option"
  consensus_analyst :: "bool option"
  ratings :: "rating list"
  ranking :: analyst_ranking

record insider =
  insider_name :: "string option"
  company :: "string option"
  officer :: "bool option"
  director :: "bool option"
  officer_title :: "string option"
  amount :: "real option"
  shares :: "real option"
  report_date :: int
  file_url :: "string option"
  insider_image_url :: "string option"

record insider_trades_result =
  insiders_sorted :: "insider list"
  insider_trades_last_3_months :: "real option"

record holding =
  manager_name :: "string option"
  institution :: "string option"
  holder_stars :: "real option"
  holder_rank :: "real option"
  ranked_institutions :: "real option"
  holding_value :: "real option"
  holding_change :: "real option"
  percentage_of_portfolio :: "real option"
  holder_image_url :: "string option"

text \<open>An exception ends the evaluation: the rest is evaluated on a result only.\<close>

definition on_result :: "error + 'a \<Rightarrow> ('a \<Rightarrow> error + 'b) \<Rightarrow> error + 'b" where
  "on_result r f = (case r of Inl e \<Rightarrow> Inl e | Inr x \<Rightarrow> f x)"

fun build_all :: "('a \<Rightarrow> error + 'b) \<Rightarrow> 'a list \<Rightarrow> error + 'b list" where
  "build_all f [] = Inr []"
| "build_all f (x # xs) =
     on_result (f x) (\<lambda>y. on_result (build_all f xs) (\<lambda>ys. Inr (y # ys)))"

text \<open>\<open>round(v, n)\<close> and \<open>a / b\<close> on values that may be null.\<close>

definition py_round :: "service \<Rightarrow> nat \<Rightarrow> real option \<Rightarrow> error + real option" where
  "py_round srv n v = (case v of None \<Rightarrow> Inl TypeError | Some x \<Rightarrow> Inr (Some (round_to srv n x)))"

definition py_divide :: "real option \<Rightarrow> real option \<Rightarrow> error + real option" where
  "py_divide a b =
     (case a of
        None \<Rightarrow> Inl TypeError
      | Some x \<Rightarrow>
          (case b of
             None \<Rightarrow> Inl TypeError
           | Some y \<Rightarrow> if y = 0 then Inl ZeroDivisionError else Inr (Some (x / y))))"

definition expert_picture :: "string option \<Rightarrow> string option" where
  "expert_picture img =
     (case img of
        None \<Rightarrow> None
      | Some i \<Rightarrow> Some (''https://cdn.tipranks.com/expert-pictures/'' @ i @ ''_tsqr.jpg''))"

text \<open>
  \<open>sorted(data, key=..., reverse=desc)\<close>: the sort is stable, and with \<open>reverse\<close> it
  keeps items of equal keys in their order, which is a stable sort of the reversed list,
  reversed. The key is the pair \<open>(x is None, x)\<close>; pairs compare by their first
  components where these differ, so that a null is never compared with a value.
\<close>

definition py_sorted :: "('a \<Rightarrow> 'k::linorder) \<Rightarrow> bool \<Rightarrow> 'a list \<Rightarrow> 'a list" where
  "py_sorted key reverse xs = (if reverse then rev (sort_key key (rev xs)) else sort_key key xs)"

definition null_key :: "('a \<Rightarrow> 'v option) \<Rightarrow> 'a \<Rightarrow> bool \<times> 'v option" where
  "null_key f x = (f x = None, f x)"

text \<open>
  The message of the ValueError: \<open>f"sorting variable has to be in {sort_variables}"\<close>,
  with the tuple as \<open>repr\<close> writes it.
\<close>

definition repr_tuple :: "string list \<Rightarrow> string" where
  "repr_tuple xs = ''('' @ py_join '', '' (map (\<lambda>x. [CHR 0x27] @ x @ [CHR 0x27]) xs) @ '')''"

definition sorting_error :: "string list \<Rightarrow> error" where
  "sorting_error sort_variables =
     ValueError (''sorting variable has to be in '' @ repr_tuple sort_variables)"

subsection \<open>covering_analysts\<close>

definition analyst_sort_variables :: "string list" where
  "analyst_sort_variables =
     [''name'', ''firm'', ''stock_success_rate'', ''average_rating_return_stock'',
      ''total_recommendations_stock'', ''positive_recommendations_stock'', ''price_target'',
      ''rank'', ''successful_recommendations'', ''total_recommendations'',
      ''average_rating_return'', ''stars'']"

definition make_rating :: "service \<Rightarrow> bool \<Rightarrow> rating_raw \<Rightarrow> rating" where
  "make_rating srv stamps r =
     \<lparr>rated_on = date_number srv stamps (rating_date r), price_target = priceTarget r,
      news_url = url r, news_title = quote_title r\<rparr>"

text \<open>
  The dictionary of one expert (lines 79 to 110), its values in the order they are
  evaluated: \<open>round\<close> of a null is a TypeError, \<open>rankings[0]\<close> of an empty list an
  IndexError.
\<close>

definition make_analyst :: "service \<Rightarrow> bool \<Rightarrow> expert_raw \<Rightarrow> error + analyst" where
  "make_analyst srv stamps item =
     on_result (py_round srv 4 (stockSuccessRate item)) (\<lambda>ssr.
     on_result (py_round srv 4 (stockAverageReturn item)) (\<lambda>sar.
     on_result (first_match (rankings item)) (\<lambda>rk.
     on_result (py_divide (gRecs rk) (tRecs rk)) (\<lambda>quotient.
     on_result (py_round srv 4 quotient) (\<lambda>pct.
     on_result (py_round srv 4 (avgReturn rk)) (\<lambda>ar.
     on_result (py_round srv 1 (originalStars rk)) (\<lambda>st.
       Inr \<lparr>analyst_name = expert_name item,
            firm = expert_firm item,
            image_url = expert_picture (expertImg item),
            stock_success_rate = ssr,
            average_rating_return_stock = sar,
            total_recommendations_stock = stockTotalRecommendations item,
            positive_recommendations_stock = stockGoodRecommendations item,
            consensus_analyst = includedInConsensus item,
            ratings = map (make_rating srv stamps) (ratings_raw item),
            ranking =
              \<lparr>rank = lRank rk,
               successful_recommendations = gRecs rk,
               total_recommendations = tRecs rk,
               percentage_successful_recommendations = pct,
               average_rating_return = ar,
               stars = st\<rparr>\<rparr>)))))))"

text \<open>The value a key of the ranking dictionary, or of the analyst, names.\<close>

definition ranking_value :: "string \<Rightarrow> analyst \<Rightarrow> real option" where
  "ranking_value k x =
     (if k = ''rank'' then rank (ranking x)
      else if k = ''successful_recommendations'' then successful_recommendations (ranking x)
      else if k = ''total_recommendations'' then total_recommendations (ranking x)
      else if k = ''percentage_successful_recommendations''
        then percentage_successful_recommendations (ranking x)
      else if k = ''average_rating_return'' then average_rating_return (ranking x)
      else stars (ranking x))"

definition analyst_number :: "string \<Rightarrow> analyst \<Rightarrow> real option" where
  "analyst_number k x =
     (if k = ''stock_success_rate'' then stock_success_rate x
      else if k = ''average_rating_return_stock'' then average_rating_return_stock x
      else if k = ''total_recommendations_stock'' then total_recommendations_stock x
      else positive_recommendations_stock x)"

definition analyst_text :: "string \<Rightarrow> analyst \<Rightarrow> string option" where
  "analyst_text k x = (if k = ''name'' then analyst_name x else firm x)"

text \<open>
  Lines 116 to 129. The last branch of the source reads \<open>x[sorted_by]\<close>, a string for
  \<open>name\<close> and \<open>firm\<close> and a number for the other keys. \<open>x["ratings"][0]\<close> is an IndexError
  for an analyst without ratings.
\<close>

definition sort_analysts :: "string \<Rightarrow> analyst list \<Rightarrow> error + analyst list" where
  "sort_analysts sorted_by data =
     (let desc = (if sorted_by \<in> set [''name'', ''firm''] then False else True) in
      if sorted_by \<in> set [''rank'', ''successful_recommendations'', ''total_recommendations'',
                           ''percentage_successful_recommendations'',
                           ''average_rating_return'', ''stars'']
      then Inr (py_sorted (null_key (ranking_value sorted_by)) desc data)
      else if sorted_by = ''price_target''
      then (if list_ex (\<lambda>x. ratings x = []) data then Inl IndexError
            else Inr (py_sorted (null_key (\<lambda>x. price_target (hd (ratings x)))) desc data))
      else if sorted_by \<in> set [''name'', ''firm'']
      then Inr (py_sorted (null_key (analyst_text sorted_by)) desc data)
      else Inr (py_sorted (null_key (analyst_number sorted_by)) desc data))"

definition covering_analysts ::
    "service \<Rightarrow> reader \<Rightarrow> bool \<Rightarrow> bool \<Rightarrow> string \<Rightarrow> (error + analyst list) \<times> reader" where
  "covering_analysts srv st include_retail stamps sorted_by =
     (if sorted_by \<notin> set analyst_sort_variables
      then (Inl (sorting_error analyst_sort_variables), st)
      else (case get_ratings_data srv st of (d, st') \<Rightarrow>
              (on_result (build_all (make_analyst srv stamps) (experts d)) (\<lambda>data.
                 sort_analysts sorted_by
                   (if \<not> include_retail
                    then filter (\<lambda>item. consensus_analyst item = Some True) data
                    else data)),
               st')))"

subsection \<open>insider_trades\<close>

definition insider_sort_variables :: "string list" where
  "insider_sort_variables = [''name'', ''amount'', ''shares'', ''report_date'']"

definition make_insider :: "service \<Rightarrow> bool \<Rightarrow> insider_raw \<Rightarrow> insider" where
  "make_insider srv stamps item =
     \<lparr>insider_name = insider_name_raw item, company = company_raw item,
      officer = isOfficer item, director = isDirector item,
      officer_title = officerTitle item, amount = amount_raw item,
      shares = numberOfShares item, report_date = date_number srv stamps (rDate item),
      file_url = link item, insider_image_url = expert_picture (insiderImg item)\<rparr>"

definition sort_insiders :: "string \<Rightarrow> insider list \<Rightarrow> insider list" where
  "sort_insiders sorted_by data =
     (let desc = (if sorted_by \<in> set [''amount'', ''shares'', ''report_date''] then True
                  else False) in
      if sorted_by = ''name'' then py_sorted (null_key insider_name) desc data
      else if sorted_by = ''amount'' then py_sorted (null_key amount) desc data
      else if sorted_by = ''shares'' then py_sorted (null_key shares) desc data
      else py_sorted (null_key (\<lambda>x. Some (report_date x))) desc data)"

definition insider_trades ::
    "service \<Rightarrow> reader \<Rightarrow> bool \<Rightarrow> string \<Rightarrow> (error + insider_trades_result) \<times> reader" where
  "insider_trades srv st stamps sorted_by =
     (if sorted_by \<notin> set insider_sort_variables
      then (Inl (sorting_error insider_sort_variables), st)
      else (case get_ratings_data srv st of (d, st') \<Rightarrow>
              (case get_ratings_data srv st' of (d', st'') \<Rightarrow>
                 (Inr \<lparr>insiders_sorted =
                         sort_insiders sorted_by (map (make_insider srv stamps) (insiders d)),
                       insider_trades_last_3_months = insiderslast3MonthsSum d'\<rparr>,
                  st''))))"

subsection \<open>institutional_ownership\<close>

definition holding_sort_variables :: "string list" where
  "holding_sort_variables =
     [''name'', ''firm'', ''stars'', ''rank'', ''value'', ''change'',
      ''percentage_of_portfolio'']"

definition make_holding :: "service \<Rightarrow> holding_raw \<Rightarrow> error + holding" where
  "make_holding srv item =
     on_result (py_round srv 1 (stars_raw item)) (\<lambda>st.
     on_result (py_divide (change_raw item) (Some 100)) (\<lambda>quotient.
     on_result (py_round srv 4 quotient) (\<lambda>ch.
     on_result (py_round srv 4 (percentageOfPortfolio item)) (\<lambda>pct.
       Inr \<lparr>manager_name = managerName item, institution = institutionName item,
            holder_stars = st, holder_rank = rank_raw item,
            ranked_institutions = totalRankedInstitutions item,
            holding_value = value_raw item, holding_change = ch,
            percentage_of_portfolio = pct,
            holder_image_url = expert_picture (imageURL item)\<rparr>))))"

definition holding_number :: "string \<Rightarrow> holding \<Rightarrow> real option" where
  "holding_number k x =
     (if k = ''stars'' then holder_stars x
      else if k = ''rank'' then holder_rank x
      else if k = ''value'' then holding_value x
      else if k = ''change'' then holding_change x
      else percentage_of_portfolio x)"

definition sort_holdings :: "string \<Rightarrow> holding list \<Rightarrow> holding list" where
  "sort_holdings sorted_by data =
     (let desc = (if sorted_by \<in> set [''name'', ''firm''] then False else True) in
      if sorted_by = ''name'' then py_sorted (null_key manager_name) desc data
      else if sorted_by = ''firm'' then py_sorted (null_key institution) desc data
      else py_sorted (null_key (holding_number sorted_by)) desc data)"

definition institutional_ownership ::
    "service \<Rightarrow> reader \<Rightarrow> string \<Rightarrow> (error + holding list) \<times> reader" where
  "institutional_ownership srv st sorted_by =
     (if sorted_by \<notin> set holding_sort_variables
      then (Inl (sorting_error holding_sort_variables), st)
      else (case get_ratings_data srv st of (d, st') \<Rightarrow>
              (on_result (build_all (make_holding srv) (institutionalHoldings d)) (\<lambda>data.
                 Inr (sort_holdings sorted_by data)),
               st')))"

section \<open>Example filings\<close>


definition sic_line :: "string \<Rightarrow> string \<Rightarrow> string" where
  "sic_line nm code =
     [TAB] @ ''STANDARD INDUSTRIAL CLASSIFICATION:'' @ [TAB] @ nm @ '' ['' @ code @ '']'' @ [NL]"




definition daily_request :: request where
  "daily_request = \<lparr>frequency = ''1d'', returns = False, timestamps = False, rounded = False\<rparr>"

definition weekly_request :: request where
  "weekly_request =
     \<lparr>frequency = ''1wk'', returns = False, timestamps = True, rounded = False\<rparr>"

text \<open>
  A library that rounds nothing, refuses to align frames with a repeated label, and
  computes the return columns.
\<close>

definition plain_library :: library where
  "plain_library =
     \<lparr>rounding = (\<lambda>x. x),
      realign_dividends = (\<lambda>prices df_div. Inl InvalidIndexError),
      realign_splits = (\<lambda>df df_splits. Inl InvalidIndexError),
      return_columns = (\<lambda>df. None)\<rparr>"




text \<open>
  A payload with three analysts of the consensus, the second without a rank, and a
  service that sends it; the same payload with the star value of the second analyst
  null instead.
\<close>

definition example_expert :: "string \<Rightarrow> real option \<Rightarrow> real option \<Rightarrow> expert_raw" where
  "example_expert nm rk st =
     \<lparr>expert_name = Some nm, expert_firm = Some ''Firm'', expertImg = None,
      stockSuccessRate = Some 1, stockAverageReturn = Some 0,
      stockTotalRecommendations = Some 2, stockGoodRecommendations = Some 2,
      includedInConsensus = Some True,
      ratings_raw = [\<lparr>rating_date = ''2020-03-02'', priceTarget = Some 100, url = None,
                       quote_title = None\<rparr>],
      rankings = [\<lparr>lRank = rk, gRecs = Some 3, tRecs = Some 4, avgReturn = Some 0,
                    originalStars = st\<rparr>]\<rparr>"

definition example_payload :: payload where
  "example_payload =
     \<lparr>experts = [example_expert ''A'' (Some 5) (Some 4), example_expert ''B'' None (Some 3),
                 example_expert ''C'' (Some 3) (Some 5)],
      insiders = [], insiderslast3MonthsSum = None, institutionalHoldings = []\<rparr>"

definition null_star_payload :: payload where
  "null_star_payload =
     \<lparr>experts = [example_expert ''A'' (Some 5) (Some 4), example_expert ''B'' (Some 4) None,
                 example_expert ''C'' (Some 3) (Some 5)],
      insiders = [], insiderslast3MonthsSum = None, institutionalHoldings = []\<rparr>"

definition example_service :: "payload \<Rightarrow> service" where
  "example_service d =
     \<lparr>get_data = (\<lambda>t. d), round_to = (\<lambda>n x. x), date_number = (\<lambda>stamps s. 0)\<rparr>"

definition fresh_reader :: reader where
  "fresh_reader = \<lparr>ticker = ''AAPL'', ratings_data = None, requests_sent = 0\<rparr>"

section \<open>Properties\<close>

subsection \<open>Strings\<close>

lemma index_of_prefix: "index_of sub s = Some i \<Longrightarrow> prefix sub (drop i s) \<and> i \<le> length s"
proof (induction s arbitrary: i)
  case Nil
  then show ?case by (simp split: if_splits)
next
  case (Cons c cs)
  then show ?case by (auto split: if_splits)
qed

lemma py_find_found:
  assumes "py_find s sub = int i"
  shows "prefix sub (drop i s) \<and> i \<le> length s"
proof -
  from assms have "index_of sub s = Some i"
    by (simp add: py_find_def split: option.splits)
  then show ?thesis by (rule index_of_prefix)
qed

lemma py_bound_nat: "i \<le> n \<Longrightarrow> py_bound n (int i) = i"
  by (simp add: py_bound_def)

subsection \<open>The header splitter\<close>

lemma filer_start_found:
  assumes "filer_section_start h = int f"
  shows "prefix (filer_marker h) (drop f h) \<and> f \<le> length h"
proof (cases "py_find h ''FILER:'' = -1")
  case True
  with assms have "py_find h ''FILED BY:'' = int f" by (simp add: filer_section_start_def)
  then have "prefix ''FILED BY:'' (drop f h) \<and> f \<le> length h" by (rule py_find_found)
  with True show ?thesis by (simp add: filer_marker_def)
next
  case False
  with assms have "py_find h ''FILER:'' = int f" by (simp add: filer_section_start_def)
  then have "prefix ''FILER:'' (drop f h) \<and> f \<le> length h" by (rule py_find_found)
  with False show ?thesis by (simp add: filer_marker_def)
qed

lemma filer_marker_hd: "\<exists>m. filer_marker h = CHR ''F'' # m"
  by (simp add: filer_marker_def)

text \<open>
  Claim C1. When the header holds both a subject marker (at offset \<open>s\<close>) and a filer
  marker (at offset \<open>f\<close>, of \<open>FILER:\<close>, or of \<open>FILED BY:\<close> when there is no \<open>FILER:\<close>),
  the two offsets differ and decide the sections: the section whose marker comes first
  runs from its marker to the other marker, the other one from its marker to the end of
  the header. The filer section is then cut at the filer markers.
\<close>

theorem split_header_by_offset:
  assumes s: "subject_section_start hdr = int s"
    and f: "filer_section_start hdr = int f"
  shows "s \<noteq> f
    \<and> prefix ''SUBJECT COMPANY:'' (drop s hdr)
    \<and> prefix (filer_marker hdr) (drop f hdr)
    \<and> (s < f \<longrightarrow> header_sections hdr = (take (f - s) (drop s hdr), drop f hdr))
    \<and> (f < s \<longrightarrow> header_sections hdr = (drop s hdr, take (s - f) (drop f hdr)))
    \<and> split_header hdr =
        (fst (header_sections hdr),
         drop 1 (py_split (snd (header_sections hdr)) (filer_marker hdr)))"
proof -
  from s have ps: "prefix ''SUBJECT COMPANY:'' (drop s hdr)" and sl: "s \<le> length hdr"
    using py_find_found [of hdr "''SUBJECT COMPANY:''" s]
    by (simp_all add: subject_section_start_def)
  from f have pf: "prefix (filer_marker hdr) (drop f hdr)" and fl: "f \<le> length hdr"
    using filer_start_found [of hdr f] by simp_all
  have ne: "s \<noteq> f"
  proof
    assume "s = f"
    obtain m where m: "filer_marker hdr = CHR ''F'' # m"
      using filer_marker_hd by blast
    from ps obtain r where "drop s hdr = ''SUBJECT COMPANY:'' @ r"
      by (auto simp: prefix_def)
    moreover from pf m \<open>s = f\<close> obtain r' where "drop s hdr = (CHR ''F'' # m) @ r'"
      by (auto simp: prefix_def)
    ultimately show False by simp
  qed
  have lt: "s < f \<longrightarrow> header_sections hdr = (take (f - s) (drop s hdr), drop f hdr)"
    using s f sl fl
    by (simp add: header_sections_def slice_def slice_from_def py_bound_nat)
  have gt: "f < s \<longrightarrow> header_sections hdr = (drop s hdr, take (s - f) (drop f hdr))"
    using s f sl fl
    by (simp add: header_sections_def slice_def slice_from_def py_bound_nat)
  have sp: "split_header hdr =
        (fst (header_sections hdr),
         drop 1 (py_split (snd (header_sections hdr)) (filer_marker hdr)))"
    by (simp add: split_header_def filer_marker_def split: prod.splits)
  from ne ps pf lt gt sp show ?thesis by blast
qed

text \<open>
  The theorem at a hdr with the subject first and two \<open>FILED BY:\<close> blocks, and at one
  with two \<open>FILER:\<close> blocks first and the subject last.
\<close>

theorem split_header_by_offset_witness:
  "subject_section_start ''xSUBJECT COMPANY:abFILED BY:cFILED BY:d'' = 1
   \<and> filer_section_start ''xSUBJECT COMPANY:abFILED BY:cFILED BY:d'' = 19
   \<and> split_header ''xSUBJECT COMPANY:abFILED BY:cFILED BY:d''
       = (''SUBJECT COMPANY:ab'', [''c'', ''d''])
   \<and> subject_section_start ''FILER:cFILER:dSUBJECT COMPANY:ab'' = 14
   \<and> filer_section_start ''FILER:cFILER:dSUBJECT COMPANY:ab'' = 0
   \<and> split_header ''FILER:cFILER:dSUBJECT COMPANY:ab''
       = (''SUBJECT COMPANY:ab'', [''c'', ''d''])"
proof -
  have s1: "subject_section_start ''xSUBJECT COMPANY:abFILED BY:cFILED BY:d'' = int 1"
    by (simp add: subject_section_start_def py_find_def)
  have f1: "filer_section_start ''xSUBJECT COMPANY:abFILED BY:cFILED BY:d'' = int 19"
    by (simp add: filer_section_start_def py_find_def)
  have s2: "subject_section_start ''FILER:cFILER:dSUBJECT COMPANY:ab'' = int 14"
    by (simp add: subject_section_start_def py_find_def)
  have f2: "filer_section_start ''FILER:cFILER:dSUBJECT COMPANY:ab'' = int 0"
    by (simp add: filer_section_start_def py_find_def)
  have r1: "split_header ''xSUBJECT COMPANY:abFILED BY:cFILED BY:d''
       = (''SUBJECT COMPANY:ab'', [''c'', ''d''])"
    using split_header_by_offset [OF s1 f1]
    by (simp add: py_split_def filer_marker_def py_find_def)
  have r2: "split_header ''FILER:cFILER:dSUBJECT COMPANY:ab''
       = (''SUBJECT COMPANY:ab'', [''c'', ''d''])"
    using split_header_by_offset [OF s2 f2]
    by (simp add: py_split_def filer_marker_def py_find_def)
  from s1 f1 s2 f2 r1 r2 show ?thesis by simp
qed

subsection \<open>Recovery from a missing classification\<close>









subsection \<open>The security identifier\<close>

lemma replace_char_filter: "py_replace [x] [] s = filter (\<lambda>c. c \<noteq> x) s"
  by (induction s) auto

lemma digit_not_space: "is_digit c \<Longrightarrow> \<not> is_space c \<and> \<not> is_sep c"
  by (auto simp: is_digit_def is_space_def is_sep_def less_eq_char_def)

lemma upper_not_space: "is_upper c \<Longrightarrow> \<not> is_space c \<and> \<not> is_sep c"
  by (auto simp: is_upper_def is_space_def is_sep_def less_eq_char_def)

lemma lower_not_space: "is_lower c \<Longrightarrow> \<not> is_space c \<and> \<not> is_sep c"
  by (auto simp: is_lower_def is_space_def is_sep_def less_eq_char_def)

lemma strip_id:
  assumes "s \<noteq> []" and "\<not> is_space (hd s)" and "\<not> is_space (last s)"
  shows "strip s = s"
proof -
  from assms(1,2) have a: "dropWhile is_space s = s"
    by (cases s) auto
  from assms(1,3) have "dropWhile is_space (rev s) = rev s"
    by (cases "rev s") (auto simp: last_rev [symmetric] simp del: last_rev)
  with a show ?thesis by (simp add: strip_def)
qed


lemma alnum_plain: "alnum c \<Longrightarrow> \<not> is_space c \<and> c \<noteq> CHR ''-'' \<and> c \<noteq> CHR '' ''"
  using digit_not_space [of c] upper_not_space [of c] lower_not_space [of c]
  by (auto simp: alnum_def is_sep_def)

lemma filter_alnum:
  assumes "list_all alnum xs"
  shows "filter (\<lambda>x. x \<noteq> CHR '' '' \<and> x \<noteq> CHR ''-'') xs = xs"
  using assms alnum_plain by (induction xs) auto

lemma filter_seps:
  assumes "list_all is_sep xs"
  shows "filter (\<lambda>x. x \<noteq> CHR '' '' \<and> x \<noteq> CHR ''-'') xs = []"
  using assms by (induction xs) (auto simp: is_sep_def)

lemma clean_cusip_shape:
  assumes "length issuer = 6" and "list_all alnum issuer"
    and "list_all is_sep sep1" and "list_all is_digit issue"
    and "list_all is_sep sep2" and "length chk = 1" and "list_all is_digit chk"
  shows "clean_cusip (issuer @ sep1 @ issue @ sep2 @ chk) = issuer @ issue @ chk"
proof -
  let ?g = "issuer @ sep1 @ issue @ sep2 @ chk"
  from assms(1) obtain c cs where issuer: "issuer = c # cs" by (cases issuer) auto
  from assms(6) obtain d where chk: "chk = [d]" by (cases chk) auto
  from assms(2) issuer have "\<not> is_space (hd ?g)" using alnum_plain by simp
  moreover from assms(7) chk have "\<not> is_space (last ?g)" using digit_not_space by simp
  moreover have "?g \<noteq> []" using issuer by simp
  ultimately have st: "strip ?g = ?g" by (rule_tac strip_id)
  have dg: "list_all alnum issue" "list_all alnum chk"
    using assms(4,7) by (auto simp: alnum_def list_all_iff)
  show ?thesis
    unfolding clean_cusip_def st replace_char_filter
    by (simp add: filter_alnum filter_seps assms(2,3,5) dg)
qed

lemma cusip_pattern_shape:
  assumes "cusip_pattern s = Some (g, n)"
  shows "\<exists>issuer sep1 issue sep2 chk.
           g = issuer @ sep1 @ issue @ sep2 @ chk \<and> n = length g
           \<and> length issuer = 6 \<and> list_all alnum issuer \<and> list_all is_sep sep1
           \<and> length issue = 2 \<and> list_all is_digit issue \<and> list_all is_sep sep2
           \<and> length chk = 1 \<and> list_all is_digit chk"
proof -
  let ?issuer = "take 6 s"
  let ?sep1 = "takeWhile is_sep (drop 6 s)"
  let ?rest1 = "dropWhile is_sep (drop 6 s)"
  let ?issue = "take 2 ?rest1"
  let ?sep2 = "takeWhile is_sep (drop 2 ?rest1)"
  let ?rest2 = "dropWhile is_sep (drop 2 ?rest1)"
  let ?chk = "take 1 ?rest2"
  from assms have c: "length ?issuer = 6"
      "list_all (\<lambda>c. is_digit c \<or> is_upper c) (take 4 ?issuer)"
      "list_all (\<lambda>c. is_digit c \<or> is_upper c \<or> is_lower c) (drop 4 ?issuer)"
      "length ?issue = 2" "list_all is_digit ?issue"
      "length ?chk = 1" "list_all is_digit ?chk"
    and g: "g = ?issuer @ ?sep1 @ ?issue @ ?sep2 @ ?chk" and n: "n = length g"
    by (auto simp: cusip_pattern_def Let_def split: if_splits)
  have "list_all alnum (take 4 ?issuer @ drop 4 ?issuer)"
    using c(2,3) unfolding list_all_append by (auto simp: alnum_def list_all_iff)
  then have al: "list_all alnum ?issuer" by (simp only: append_take_drop_id)
  have s1: "list_all is_sep ?sep1" and s2: "list_all is_sep ?sep2"
    by (auto simp: list_all_iff dest: set_takeWhileD)
  from g n c(1,4,5,6,7) al s1 s2 show ?thesis by blast
qed

lemma cusip_pattern_len9:
  assumes "cusip_pattern s = Some (g, n)"
  shows "length (clean_cusip g) = 9"
proof -
  from cusip_pattern_shape [OF assms] obtain issuer sep1 issue sep2 chk where
    h: "g = issuer @ sep1 @ issue @ sep2 @ chk" "length issuer = 6" "list_all alnum issuer"
      "list_all is_sep sep1" "length issue = 2" "list_all is_digit issue"
      "list_all is_sep sep2" "length chk = 1" "list_all is_digit chk"
    by blast
  then have "clean_cusip g = issuer @ issue @ chk"
    by (simp add: clean_cusip_shape)
  with h show ?thesis by simp
qed

lemma findall_matches:
  "g \<in> set (findall m s) \<Longrightarrow> \<exists>t n. m t = Some (g, n)"
proof (induction m s rule: findall.induct)
  case (1 m)
  then show ?case by simp
next
  case (2 m c cs)
  then show ?case by (auto split: option.splits)
qed

lemma candidates_len9: "c \<in> set (cusip_candidates flat) \<Longrightarrow> length c = 9"
  using findall_matches [of _ cusip_pattern flat] cusip_pattern_len9
  by (auto simp: cusip_candidates_def)

lemma max_len_from_first:
  "\<forall>x \<in> set xs. length x \<le> length best \<Longrightarrow> max_len_from best xs = best"
  by (induction xs arbitrary: best) auto


lemma findall_skip:
  "\<forall>i<length pre. m (drop i (pre @ t)) = None \<Longrightarrow> findall m (pre @ t) = findall m t"
proof (induction pre)
  case Nil
  then show ?case by simp
next
  case (Cons c cs)
  from Cons.prems have "m ((c # cs) @ t) = None" by force
  moreover have "\<forall>i<length cs. m (drop i (cs @ t)) = None"
  proof (intro allI impI)
    fix i assume "i < length cs"
    then have "Suc i < length (c # cs)" by simp
    with Cons.prems have "m (drop (Suc i) ((c # cs) @ t)) = None" by blast
    then show "m (drop i (cs @ t)) = None" by simp
  qed
  ultimately show ?case using Cons.IH by simp
qed

lemma findall_head:
  assumes "m t = Some (g, n)" and "0 < n" and "t \<noteq> []"
  shows "findall m t = g # findall m (drop n t)"
proof -
  from assms(3) obtain c cs where t: "t = c # cs" by (cases t) auto
  from assms(2) have "drop (n - 1) cs = drop n (c # cs)" by (cases n) auto
  with assms(1) t show ?thesis by simp
qed

lemma takeWhile_run:
  assumes "list_all P xs" and "ys \<noteq> []" and "\<not> P (hd ys)"
  shows "takeWhile P (xs @ ys) = xs" and "dropWhile P (xs @ ys) = ys"
proof -
  from assms(2,3) have "takeWhile P ys = []" "dropWhile P ys = ys"
    by (cases ys; simp)+
  with assms(1) show "takeWhile P (xs @ ys) = xs" and "dropWhile P (xs @ ys) = ys"
    by (simp_all add: list_all_iff takeWhile_append2 dropWhile_append2)
qed

lemma cusip_pattern_embedded:
  assumes "identifier_shape c" and "list_all is_sep sep1" and "list_all is_sep sep2"
  shows "cusip_pattern (take 6 c @ sep1 @ take 2 (drop 6 c) @ sep2 @ drop 8 c @ rest)
    = Some (take 6 c @ sep1 @ take 2 (drop 6 c) @ sep2 @ drop 8 c,
            length (take 6 c @ sep1 @ take 2 (drop 6 c) @ sep2 @ drop 8 c))"
proof -
  let ?issuer = "take 6 c" and ?issue = "take 2 (drop 6 c)" and ?chk = "drop 8 c"
  from assms(1) have len: "length c = 9"
    and up: "list_all (\<lambda>x. is_digit x \<or> is_upper x) (take 4 c)"
    and al: "list_all alnum (take 2 (drop 4 c))"
    and dg: "list_all is_digit (drop 6 c)"
    by (simp_all add: identifier_shape_def)
  have li: "length ?issuer = 6" "length ?issue = 2" "length ?chk = 1" using len by simp_all
  have "drop 8 c = drop 2 (drop 6 c)" by simp
  then have "drop 6 c = ?issue @ ?chk" by (simp only: append_take_drop_id)
  with dg have d2: "list_all is_digit ?issue" and d1: "list_all is_digit ?chk"
    by (metis list_all_append)+
  from li(2) d2 obtain a b where issue: "?issue = [a, b]" and da: "is_digit a"
    by (cases ?issue; cases "tl ?issue") auto
  from li(3) d1 obtain k where chk: "?chk = [k]" and dk: "is_digit k"
    by (cases ?chk) auto
  have t4: "take 4 ?issuer = take 4 c" and d4: "drop 4 ?issuer = take 2 (drop 4 c)"
    using len by (simp_all add: min_def drop_take)
  have s6: "take 6 (?issuer @ sep1 @ ?issue @ sep2 @ ?chk @ rest) = ?issuer"
    and r6: "drop 6 (?issuer @ sep1 @ ?issue @ sep2 @ ?chk @ rest)
              = sep1 @ ?issue @ sep2 @ ?chk @ rest"
    using li(1) by simp_all
  have n1: "\<not> is_sep (hd (?issue @ sep2 @ ?chk @ rest))"
    using issue da digit_not_space by simp
  have tw1: "takeWhile is_sep (sep1 @ ?issue @ sep2 @ ?chk @ rest) = sep1"
    and dw1: "dropWhile is_sep (sep1 @ ?issue @ sep2 @ ?chk @ rest) = ?issue @ sep2 @ ?chk @ rest"
    using takeWhile_run [OF assms(2), of "?issue @ sep2 @ ?chk @ rest"] n1 issue by simp_all
  have n2: "\<not> is_sep (hd (?chk @ rest))"
    using chk dk digit_not_space by simp
  have tw2: "takeWhile is_sep (sep2 @ ?chk @ rest) = sep2"
    and dw2: "dropWhile is_sep (sep2 @ ?chk @ rest) = ?chk @ rest"
    using takeWhile_run [OF assms(3), of "?chk @ rest"] n2 chk by simp_all
  have i2: "take 2 (?issue @ sep2 @ ?chk @ rest) = ?issue"
    and r2: "drop 2 (?issue @ sep2 @ ?chk @ rest) = sep2 @ ?chk @ rest"
    using li(2) by simp_all
  have c1: "take 1 (?chk @ rest) = ?chk" using li(3) by simp
  have al': "list_all (\<lambda>c. is_digit c \<or> is_upper c \<or> is_lower c) (take 2 (drop 4 c))"
    using al by (simp add: alnum_def list_all_iff)
  show ?thesis
    unfolding cusip_pattern_def Let_def s6 r6 tw1 dw1 i2 r2 tw2 dw2 c1 t4 d4
    using li up al' d2 d1 by simp
qed


lemma list_all_upt: "list_all P [0..<n] \<Longrightarrow> \<forall>i<n. P i"
  by (simp add: list_all_iff)

lemma parse_cusip_flat_first:
  assumes "cusip_candidates flat \<noteq> []"
  shows "parse_cusip_flat flat = Inr (hd (cusip_candidates flat))"
proof -
  from assms obtain x xs where c: "cusip_candidates flat = x # xs"
    by (cases "cusip_candidates flat") auto
  have "\<forall>y \<in> set xs. length y \<le> length x"
    using candidates_len9 [of _ flat] c by simp
  then have "max_len_from x xs = x" by (rule max_len_from_first)
  with c show ?thesis by (simp add: parse_cusip_flat_def max_by_len_def)
qed

lemma max_len_from_first_longest:
  "\<exists>pre post. best # xs = pre @ max_len_from best xs # post
     \<and> (\<forall>x \<in> set pre. length x < length (max_len_from best xs))
     \<and> (\<forall>x \<in> set post. length x \<le> length (max_len_from best xs))"
proof (induction xs arbitrary: best)
  case Nil
  have "[best] = [] @ best # [] \<and> (\<forall>x \<in> set []. length x < length best)
      \<and> (\<forall>x \<in> set []. length x \<le> length best)" by simp
  then show ?case unfolding max_len_from.simps by blast
next
  case (Cons x xs)
  show ?case
  proof (cases "length best < length x")
    case True
    then have r: "max_len_from best (x # xs) = max_len_from x xs" by simp
    from Cons.IH [of x] obtain pre post where
      s: "x # xs = pre @ max_len_from x xs # post"
      and p: "\<forall>y \<in> set pre. length y < length (max_len_from x xs)"
      and q: "\<forall>y \<in> set post. length y \<le> length (max_len_from x xs)"
      by blast
    have "x \<in> set (pre @ [max_len_from x xs])"
      by (cases pre) (use s in auto)
    with p have "length x \<le> length (max_len_from x xs)" by auto
    with True have b: "length best < length (max_len_from x xs)" by simp
    have "best # x # xs = (best # pre) @ max_len_from x xs # post
        \<and> (\<forall>y \<in> set (best # pre). length y < length (max_len_from x xs))
        \<and> (\<forall>y \<in> set post. length y \<le> length (max_len_from x xs))"
      using s p q b by simp
    then show ?thesis unfolding r by blast
  next
    case False
    then have r: "max_len_from best (x # xs) = max_len_from best xs" by simp
    from Cons.IH [of best] obtain pre post where
      s: "best # xs = pre @ max_len_from best xs # post"
      and p: "\<forall>y \<in> set pre. length y < length (max_len_from best xs)"
      and q: "\<forall>y \<in> set post. length y \<le> length (max_len_from best xs)"
      by blast
    show ?thesis
    proof (cases pre)
      case Nil
      from s have c: "best # xs = max_len_from best xs # post"
        unfolding Nil by (simp only: append_Nil)
      have m: "best = max_len_from best xs"
        by (rule c [THEN list.inject [THEN iffD1], THEN conjunct1])
      have t: "xs = post"
        by (rule c [THEN list.inject [THEN iffD1], THEN conjunct2])
      have "length x \<le> length (max_len_from best xs)"
        using False m by (metis not_less)
      moreover have "\<forall>y \<in> set xs. length y \<le> length (max_len_from best xs)"
        using q t by blast
      moreover have "best # x # xs = [] @ max_len_from best xs # (x # xs)"
        using m by (metis append_Nil)
      ultimately have "best # x # xs = [] @ max_len_from best xs # (x # xs)
          \<and> (\<forall>y \<in> set []. length y < length (max_len_from best xs))
          \<and> (\<forall>y \<in> set (x # xs). length y \<le> length (max_len_from best xs))"
        by simp
      then show ?thesis unfolding r by blast
    next
      case (Cons a as)
      from s have c: "best # xs = a # (as @ max_len_from best xs # post)"
        unfolding Cons by (simp only: append_Cons)
      have a: "best = a"
        by (rule c [THEN list.inject [THEN iffD1], THEN conjunct1])
      have xs: "xs = as @ max_len_from best xs # post"
        by (rule c [THEN list.inject [THEN iffD1], THEN conjunct2])
      have pa: "length a < length (max_len_from best xs)"
        and pas: "\<forall>y \<in> set as. length y < length (max_len_from best xs)"
        using p unfolding Cons by simp_all
      have lb: "length best < length (max_len_from best xs)" using pa a by metis
      with False have lx: "length x < length (max_len_from best xs)" by simp
      have e: "best # x # xs = (best # x # as) @ max_len_from best xs # post"
        using xs by (metis append_Cons)
      have "\<forall>y \<in> set (best # x # as). length y < length (max_len_from best xs)"
        using lb lx pas by simp
      with e q have "best # x # xs = (best # x # as) @ max_len_from best xs # post
          \<and> (\<forall>y \<in> set (best # x # as). length y < length (max_len_from best xs))
          \<and> (\<forall>y \<in> set post. length y \<le> length (max_len_from best xs))"
        by blast
      then show ?thesis unfolding r by blast
    qed
  qed
qed

lemma max_by_len_first_longest:
  assumes "xs \<noteq> []"
  shows "\<exists>r pre post. max_by_len xs = Inr r \<and> xs = pre @ r # post
     \<and> (\<forall>x \<in> set pre. length x < length r) \<and> (\<forall>x \<in> set post. length x \<le> length r)"
proof -
  from assms obtain y ys where xs: "xs = y # ys" by (cases xs) auto
  have m: "max_by_len xs = Inr (max_len_from y ys)" by (simp add: xs max_by_len_def)
  from max_len_from_first_longest [of y ys] obtain pre post where
    "y # ys = pre @ max_len_from y ys # post"
    "\<forall>x \<in> set pre. length x < length (max_len_from y ys)"
    "\<forall>x \<in> set post. length x \<le> length (max_len_from y ys)" by blast
  with m xs show ?thesis by blast
qed

text \<open>
  Claim C5, as stated, fails. In the text below the pattern matches twice, first nine
  characters and then eleven; the identifier returned comes from the first match, not
  from the longest one.
\<close>

theorem first_match_not_longest:
  "findall cusip_pattern ''G1151C101 and 037833-10-0'' = [''G1151C101'', ''037833-10-0'']
   \<and> length ''G1151C101'' < length ''037833-10-0''
   \<and> parse_cusip_flat ''G1151C101 and 037833-10-0'' = Inr ''G1151C101''"
proof -
  have "findall cusip_pattern ''G1151C101 and 037833-10-0'' = [''G1151C101'', ''037833-10-0'']"
    by code_simp
  moreover have "parse_cusip_flat ''G1151C101 and 037833-10-0'' = Inr ''G1151C101''"
    by code_simp
  ultimately show ?thesis by simp
qed

text \<open>
  Claim C5, amended. The identifier is \<open>max(key=len)\<close> of the matches with their
  separators removed, and \<open>max\<close> returns the first of the longest items of any list it
  is given. Every match without its separators has nine characters, so that the
  identifier returned is the first match of the pattern, whatever the lengths of the
  matches as they are written. An identifier of the pattern's shape, written with
  separators before its issue number and before its check digit and standing where the
  pattern first matches, comes back without them.
\<close>

theorem parse_cusip_longest_round_trip:
  "parse_cusip_flat flat = max_by_len (cusip_candidates flat)
   \<and> (xs \<noteq> [] \<longrightarrow>
        (\<exists>r pre post. max_by_len xs = Inr r \<and> xs = pre @ r # post
           \<and> (\<forall>x \<in> set pre. length x < length r)
           \<and> (\<forall>x \<in> set post. length x \<le> length r)))
   \<and> (\<forall>c \<in> set (cusip_candidates flat). length c = 9)
   \<and> (cusip_candidates flat \<noteq> [] \<longrightarrow>
        parse_cusip_flat flat = Inr (hd (cusip_candidates flat)))
   \<and> (identifier_shape c \<and> list_all is_sep sep1 \<and> list_all is_sep sep2
       \<and> embedded = take 6 c @ sep1 @ take 2 (drop 6 c) @ sep2 @ drop 8 c
       \<and> (\<forall>i<length pre. cusip_pattern (drop i (pre @ embedded @ rest)) = None)
      \<longrightarrow> parse_cusip_flat (pre @ embedded @ rest) = Inr c)"
proof -
  have def: "parse_cusip_flat flat = max_by_len (cusip_candidates flat)"
    by (simp add: parse_cusip_flat_def)
  have sel: "xs \<noteq> [] \<longrightarrow>
        (\<exists>r pre post. max_by_len xs = Inr r \<and> xs = pre @ r # post
           \<and> (\<forall>x \<in> set pre. length x < length r)
           \<and> (\<forall>x \<in> set post. length x \<le> length r))"
    using max_by_len_first_longest by blast
  have nine: "\<forall>c \<in> set (cusip_candidates flat). length c = 9"
    using candidates_len9 by blast
  have fst: "cusip_candidates flat \<noteq> [] \<longrightarrow>
        parse_cusip_flat flat = Inr (hd (cusip_candidates flat))"
    using parse_cusip_flat_first by blast
  have round_trip: "parse_cusip_flat (pre @ embedded @ rest) = Inr c"
    if shape: "identifier_shape c" and s1: "list_all is_sep sep1" and s2: "list_all is_sep sep2"
      and emb: "embedded = take 6 c @ sep1 @ take 2 (drop 6 c) @ sep2 @ drop 8 c"
      and pre: "\<forall>i<length pre. cusip_pattern (drop i (pre @ embedded @ rest)) = None"
  proof -
    from shape have len: "length c = 9" by (simp add: identifier_shape_def)
    have m: "cusip_pattern (embedded @ rest) = Some (embedded, length embedded)"
      using cusip_pattern_embedded [OF shape s1 s2, of rest] emb by simp
    have ne: "embedded @ rest \<noteq> []" "0 < length embedded" using emb len by auto
    have "findall cusip_pattern (pre @ embedded @ rest) = findall cusip_pattern (embedded @ rest)"
      using pre by (rule findall_skip)
    also have "\<dots> = embedded # findall cusip_pattern (drop (length embedded) (embedded @ rest))"
      using m ne by (rule_tac findall_head)
    finally have cands: "cusip_candidates (pre @ embedded @ rest)
        = clean_cusip embedded # map clean_cusip (findall cusip_pattern rest)"
      by (simp add: cusip_candidates_def)
    have al: "list_all alnum (take 6 c)"
    proof -
      have "take (4 + 2) c = take 4 c @ take 2 (drop 4 c)" by (rule take_add)
      then have "take 6 c = take 4 c @ take 2 (drop 4 c)" by simp
      moreover have "list_all alnum (take 4 c)" "list_all alnum (take 2 (drop 4 c))"
        using shape by (auto simp: identifier_shape_def alnum_def list_all_iff)
      ultimately show ?thesis by simp
    qed
    have "drop 8 c = drop 2 (drop 6 c)" by simp
    then have d6: "drop 6 c = take 2 (drop 6 c) @ drop 8 c" by (simp only: append_take_drop_id)
    with shape have dg: "list_all is_digit (take 2 (drop 6 c))" "list_all is_digit (drop 8 c)"
      unfolding identifier_shape_def by (metis list_all_append)+
    have "clean_cusip embedded = take 6 c @ take 2 (drop 6 c) @ drop 8 c"
      unfolding emb using len al s1 s2 dg by (intro clean_cusip_shape) simp_all
    also have "\<dots> = take 6 c @ drop 6 c" using d6 by simp
    also have "\<dots> = c" by (rule append_take_drop_id)
    finally have "hd (cusip_candidates (pre @ embedded @ rest)) = c"
      using cands by simp
    moreover have "cusip_candidates (pre @ embedded @ rest) \<noteq> []" using cands by simp
    ultimately show ?thesis
      using parse_cusip_flat_first [of "pre @ embedded @ rest"] by simp
  qed
  from def sel nine fst round_trip show ?thesis by blast
qed

text \<open>
  The theorem at a list whose items differ in length, and at a text with two
  candidates, the first written with hyphens, the second with blanks.
\<close>

theorem parse_cusip_longest_round_trip_witness:
  "max_by_len [''ab'', ''abcd'', ''wxyz'', ''a''] = Inr ''abcd''
   \<and> cusip_candidates ''CUSIP No. 037833-10-0 and G1151C 10 1'' = [''037833100'', ''G1151C101'']
   \<and> parse_cusip_flat ''CUSIP No. 037833-10-0 and G1151C 10 1'' = Inr ''037833100''
   \<and> identifier_shape ''037833100''
   \<and> parse_cusip_flat (''CUSIP No. '' @ ''037833-10-0'' @ '' and G1151C 10 1'')
       = Inr ''037833100''"
proof -
  let ?flat = "''CUSIP No. 037833-10-0 and G1151C 10 1''"
  let ?xs = "[''ab'', ''abcd'', ''wxyz'', ''a'']"
  have "?xs \<noteq> []" by simp
  with parse_cusip_longest_round_trip [where xs = ?xs] obtain r where
    "max_by_len ?xs = Inr r" by blast
  moreover have "max_by_len ?xs = Inr ''abcd''" by code_simp
  ultimately have r0: "max_by_len ?xs = Inr ''abcd''" by simp
  have cands: "cusip_candidates ?flat = [''037833100'', ''G1151C101'']" by code_simp
  then have "cusip_candidates ?flat \<noteq> []" by simp
  with parse_cusip_longest_round_trip [of ?flat]
  have "parse_cusip_flat ?flat = Inr (hd (cusip_candidates ?flat))" by blast
  then have r1: "parse_cusip_flat ?flat = Inr ''037833100''" by (simp add: cands)
  have shape: "identifier_shape ''037833100''" by code_simp
  have seps: "list_all is_sep ''-''" by code_simp
  have emb: "''037833-10-0'' = take 6 ''037833100'' @ ''-'' @ take 2 (drop 6 ''037833100'')
      @ ''-'' @ drop 8 ''037833100''" by simp
  have pre: "\<forall>i<length ''CUSIP No. ''.
      cusip_pattern (drop i (''CUSIP No. '' @ ''037833-10-0'' @ '' and G1151C 10 1'')) = None"
  proof -
    have "list_all (\<lambda>i. cusip_pattern
        (drop i (''CUSIP No. '' @ ''037833-10-0'' @ '' and G1151C 10 1'')) = None)
        [0..<length ''CUSIP No. '']" by code_simp
    then show ?thesis by (rule list_all_upt)
  qed
  have r2: "parse_cusip_flat (''CUSIP No. '' @ ''037833-10-0'' @ '' and G1151C 10 1'')
       = Inr ''037833100''"
    using parse_cusip_longest_round_trip
      [where c = "''037833100''" and ?sep1.0 = "''-''" and ?sep2.0 = "''-''"
         and embedded = "''037833-10-0''" and pre = "''CUSIP No. ''"
         and rest = "'' and G1151C 10 1''"]
      shape seps emb pre by blast
  from r0 cands r1 shape r2 show ?thesis by simp
qed

subsection \<open>Price history: the trailing check and the joins\<close>

lemma length_price_frame: "length (price_frame lib req c) = length (bars c)"
  by (simp add: price_frame_def)















text \<open>
  Claim C10. The check reads the last two labels of the price frame whatever its length
  is: a series of fewer than two bars ends in an IndexError, and no table is returned.
\<close>

theorem fewer_than_two_bars_index_error:
  assumes "length (bars c) < 2"
  shows "historical_data lib req c = Inl IndexError"
  using assms
  by (simp add: historical_data_def price_table_def drop_trailing_duplicate_def
      length_price_frame)

text \<open>The theorem at a series of one bar and at an empty series.\<close>

theorem fewer_than_two_bars_index_error_witness:
  "historical_data plain_library daily_request
     \<lparr>gmtoffset = 0, bars = [(1583159400, nan_bar)], dividend_events = [],
      split_events = []\<rparr> = Inl IndexError
   \<and> historical_data plain_library weekly_request
     \<lparr>gmtoffset = 0, bars = [], dividend_events = [], split_events = []\<rparr> = Inl IndexError"
  using fewer_than_two_bars_index_error
      [of "\<lparr>gmtoffset = 0, bars = [(1583159400, nan_bar)], dividend_events = [],
            split_events = []\<rparr>" plain_library daily_request]
    fewer_than_two_bars_index_error
      [of "\<lparr>gmtoffset = 0, bars = [], dividend_events = [], split_events = []\<rparr>"
          plain_library weekly_request]
  by simp

subsection \<open>Price history: the trailing duplicate\<close>




end
